theory Spec2Isabelle
  imports Complex_Main "HOL-Library.Product_Lexorder"
begin

section \<open>Freshness cache (ah\_scraper.py, jumbo\_scraper.py, plus\_scraper.py)\<close>

text \<open>
  The three scraper modules carry the same cache code, differing only in the prefix of
  the file name. Times are whole microseconds (the resolution of Python's
  \<^verbatim>\<open>datetime\<close> and \<^verbatim>\<open>timedelta\<close>), counted from 2000-01-01T00:00:00, the
  default that \<^verbatim>\<open>should_update_cache\<close> takes for an entry without a timestamp.
\<close>

datatype timestamp_field =
    TsMissing
  | TsInvalid
  | TsNaive int
  | TsAware int

text \<open>
  \<open>TsMissing\<close>: the entry has no \<^verbatim>\<open>timestamp\<close> key; \<open>TsInvalid\<close>: the value is
  not an ISO-8601 text, \<^verbatim>\<open>datetime.fromisoformat\<close> raises; \<open>TsNaive t\<close>: a
  timestamp without a zone, as \<^verbatim>\<open>save_to_cache\<close> writes it; \<open>TsAware t\<close>: a
  timestamp with a zone, which \<^verbatim>\<open>datetime.now() - cache_time\<close> refuses with a
  TypeError.
\<close>

datatype 'p cache_file =
    NoFile
  | Unreadable
  | CacheData timestamp_field "'p list option"

text \<open>
  \<open>NoFile\<close>: the file does not exist; \<open>Unreadable\<close>: it cannot be opened or is not
  a JSON object; \<open>CacheData ts ps\<close>: a JSON object with its \<^verbatim>\<open>timestamp\<close> and its
  \<^verbatim>\<open>products\<close> (\<open>None\<close> when the key is missing).
\<close>

definition CACHE_DURATION :: int where
  "CACHE_DURATION = 12 * 3600 * 1000000"

definition CACHE_DURATION_VARIANCE :: int where
  "CACHE_DURATION_VARIANCE = 4 * 3600 * 1000000"

text \<open>
  \<^verbatim>\<open>should_update_cache\<close>. The draw of \<^verbatim>\<open>random.uniform\<close> is the argument
  \<open>variance\<close>, already rounded to microseconds by \<^verbatim>\<open>timedelta(seconds=variance)\<close>;
  \<open>now\<close> is \<^verbatim>\<open>datetime.now()\<close>. Every exception inside the \<^verbatim>\<open>try\<close> gives True.
\<close>

definition should_update_cache :: "'p cache_file \<Rightarrow> int \<Rightarrow> int \<Rightarrow> bool" where
  "should_update_cache cache_file now variance =
     (case cache_file of
        NoFile \<Rightarrow> True
      | Unreadable \<Rightarrow> True
      | CacheData ts ps \<Rightarrow>
          (case ts of
             TsInvalid \<Rightarrow> True
           | TsAware t \<Rightarrow> True
           | TsMissing \<Rightarrow> now - 0 > CACHE_DURATION + variance
           | TsNaive cache_time \<Rightarrow> now - cache_time > CACHE_DURATION + variance))"

text \<open>\<^verbatim>\<open>load_from_cache\<close>: the stored products, an empty list when the key is
  missing, \<open>None\<close> when the file cannot be read.\<close>

definition load_from_cache :: "'p cache_file \<Rightarrow> 'p list option" where
  "load_from_cache cache_file =
     (case cache_file of
        NoFile \<Rightarrow> None
      | Unreadable \<Rightarrow> None
      | CacheData ts ps \<Rightarrow> (case ps of None \<Rightarrow> Some [] | Some products \<Rightarrow> Some products))"

section \<open>Text\<close>

text \<open>
  Python's \<^verbatim>\<open>str\<close> is modelled by \<open>string\<close>, a list of bytes. The scrapers work
  on ASCII text; the one other character they name is the euro sign, which stands here
  as its three bytes in UTF-8. The character classes are the ASCII parts of
  \<^verbatim>\<open>\d\<close>, \<^verbatim>\<open>\s\<close>, \<^verbatim>\<open>[a-z]\<close> and \<^verbatim>\<open>\w\<close>.
\<close>

definition is_digit :: "char \<Rightarrow> bool" where
  "is_digit c = (c \<in> set ''0123456789'')"

definition is_space :: "char \<Rightarrow> bool" where
  "is_space c = (c \<in> set [CHR '' '', CHR 0x09, CHR 0x0A, CHR 0x0B, CHR 0x0C, CHR 0x0D])"

definition is_lower :: "char \<Rightarrow> bool" where
  "is_lower c = (c \<in> set ''abcdefghijklmnopqrstuvwxyz'')"

definition is_word :: "char \<Rightarrow> bool" where
  "is_word c = (c \<in> set ''abcdefghijklmnopqrstuvwxyzABCDEFGHIJKLMNOPQRSTUVWXYZ0123456789_'')"

text \<open>\<^verbatim>\<open>s.lower()\<close>, \<^verbatim>\<open>s.strip()\<close>, \<^verbatim>\<open>s.replace(old, new)\<close>,
  \<^verbatim>\<open>w in s\<close> (\<open>contains w s\<close>) and \<^verbatim>\<open>s.isdigit()\<close>.\<close>

definition lower_char :: "char \<Rightarrow> char" where
  "lower_char c =
     (case map_of (zip ''ABCDEFGHIJKLMNOPQRSTUVWXYZ'' ''abcdefghijklmnopqrstuvwxyz'') c of
        None \<Rightarrow> c | Some l \<Rightarrow> l)"

definition lower :: "string \<Rightarrow> string" where
  "lower s = map lower_char s"

definition strip :: "string \<Rightarrow> string" where
  "strip s = rev (dropWhile is_space (rev (dropWhile is_space s)))"

fun replace :: "string \<Rightarrow> string \<Rightarrow> string \<Rightarrow> string" where
  "replace old new [] = []"
| "replace old new (c # cs) =
     (if old \<noteq> [] \<and> take (length old) (c # cs) = old
      then new @ replace old new (drop (length old) (c # cs))
      else c # replace old new cs)"

primrec contains :: "string \<Rightarrow> string \<Rightarrow> bool" where
  "contains w [] = (w = [])"
| "contains w (c # cs) = (take (length w) (c # cs) = w \<or> contains w cs)"

definition isdigit :: "string \<Rightarrow> bool" where
  "isdigit s = (s \<noteq> [] \<and> list_all is_digit s)"

definition euro :: string where
  "euro = [CHR 0xE2, CHR 0x82, CHR 0xAC]"

text \<open>
  Numbers and text. \<open>str_nat\<close> prints a natural number. \<open>py_int\<close> and
  \<open>py_float\<close> read a text as \<^verbatim>\<open>int(s)\<close> and \<^verbatim>\<open>float(s)\<close> do, \<open>None\<close> standing
  for the ValueError: surrounding white space, a sign, digits and, for a float, a point
  with digits before or after it. A float is the rational number that the text denotes.
  Python reads more texts as floats (exponents, underscores between digits, inf, nan);
  none of the texts built by the modelled code has these forms.
\<close>

definition digit_value :: "char \<Rightarrow> nat" where
  "digit_value c = (case map_of (zip ''0123456789'' [0, 1, 2, 3, 4, 5, 6, 7, 8, 9]) c of
                      None \<Rightarrow> 0 | Some d \<Rightarrow> d)"

definition digits_value :: "string \<Rightarrow> nat" where
  "digits_value s = foldl (\<lambda>n c. 10 * n + digit_value c) 0 s"

fun str_nat :: "nat \<Rightarrow> string" where
  "str_nat n = (if n < 10 then [''0123456789'' ! n]
                else str_nat (n div 10) @ [''0123456789'' ! (n mod 10)])"

declare str_nat.simps [simp del]

definition py_int :: "string \<Rightarrow> int option" where
  "py_int s =
     (let t = strip s;
          neg = (t \<noteq> [] \<and> hd t = CHR ''-'');
          u = (if t \<noteq> [] \<and> (hd t = CHR ''-'' \<or> hd t = CHR ''+'') then tl t else t)
      in if isdigit u
         then Some (if neg then - int (digits_value u) else int (digits_value u))
         else None)"

definition py_float :: "string \<Rightarrow> rat option" where
  "py_float s =
     (let t = strip s;
          neg = (t \<noteq> [] \<and> hd t = CHR ''-'');
          u = (if t \<noteq> [] \<and> (hd t = CHR ''-'' \<or> hd t = CHR ''+'') then tl t else t);
          ip = takeWhile is_digit u;
          rest = dropWhile is_digit u;
          fp = (if rest \<noteq> [] \<and> hd rest = CHR ''.'' then tl rest else []);
          v = of_nat (digits_value ip) + of_nat (digits_value fp) / 10 ^ length fp
      in if (rest = [] \<or> hd rest = CHR ''.'') \<and> list_all is_digit fp \<and> (ip \<noteq> [] \<or> fp \<noteq> [])
         then Some (if neg then - v else v)
         else None)"

section \<open>Regular expressions\<close>

text \<open>
  \<^verbatim>\<open>re.search\<close> with Python's backtracking order. A matcher starts at a position
  (the character before it, if any, and the rest of the text) with the groups captured
  so far, and gives every way to match, in the order in which Python tries them: the
  first element is the match that Python reports. A greedy repetition tries the longer
  match first; since every repeated expression of the patterns takes one character, the
  length of the rest bounds the number of repetitions.
\<close>

type_synonym pos = "char option \<times> string"
type_synonym groups = "(nat \<times> string) list"
type_synonym matcher = "pos \<Rightarrow> groups \<Rightarrow> (pos \<times> groups) list"

definition eps :: matcher where
  "eps p g = [(p, g)]"

definition one :: "(char \<Rightarrow> bool) \<Rightarrow> matcher" where
  "one P p g = (case snd p of [] \<Rightarrow> [] | c # cs \<Rightarrow> if P c then [((Some c, cs), g)] else [])"

definition seq :: "matcher \<Rightarrow> matcher \<Rightarrow> matcher" where
  "seq m1 m2 p g = concat (map (\<lambda>(p', g'). m2 p' g') (m1 p g))"

definition alt :: "matcher \<Rightarrow> matcher \<Rightarrow> matcher" where
  "alt m1 m2 p g = m1 p g @ m2 p g"

primrec lit :: "string \<Rightarrow> matcher" where
  "lit [] = eps"
| "lit (c # cs) = seq (one (\<lambda>x. x = c)) (lit cs)"

definition opt :: "matcher \<Rightarrow> matcher" where
  "opt m = alt m eps"

primrec star_n :: "nat \<Rightarrow> matcher \<Rightarrow> matcher" where
  "star_n 0 m = eps"
| "star_n (Suc n) m = alt (seq m (star_n n m)) eps"

definition star :: "matcher \<Rightarrow> matcher" where
  "star m p g = star_n (length (snd p)) m p g"

definition plus1 :: "matcher \<Rightarrow> matcher" where
  "plus1 m = seq m (star m)"

definition grp :: "nat \<Rightarrow> matcher \<Rightarrow> matcher" where
  "grp i m p g =
     map (\<lambda>(p', g'). (p', (i, take (length (snd p) - length (snd p')) (snd p)) # g')) (m p g)"

text \<open>\<^verbatim>\<open>$\<close> (the end, or before a final newline), \<^verbatim>\<open>^\<close> and \<^verbatim>\<open>\b\<close>.\<close>

definition eos :: matcher where
  "eos p g = (if snd p = [] \<or> snd p = [CHR 0x0A] then [(p, g)] else [])"

definition bos :: matcher where
  "bos p g = (if fst p = None then [(p, g)] else [])"

definition wordb :: matcher where
  "wordb p g =
     (let word_before = (case fst p of None \<Rightarrow> False | Some c \<Rightarrow> is_word c);
          word_after = (case snd p of [] \<Rightarrow> False | c # cs \<Rightarrow> is_word c)
      in if word_before \<noteq> word_after then [(p, g)] else [])"

text \<open>The search tries the start positions from left to right.
  \<open>group m i\<close> is \<^verbatim>\<open>m.group(i)\<close> for a group that took part in the match.\<close>

fun search_from :: "matcher \<Rightarrow> char option \<Rightarrow> string \<Rightarrow> groups option" where
  "search_from m prev [] = (case m (prev, []) [] of [] \<Rightarrow> None | r # rs \<Rightarrow> Some (snd r))"
| "search_from m prev (c # cs) =
     (case m (prev, c # cs) [] of [] \<Rightarrow> search_from m (Some c) cs | r # rs \<Rightarrow> Some (snd r))"

definition re_search :: "matcher \<Rightarrow> string \<Rightarrow> groups option" where
  "re_search m s = search_from m None s"

definition group :: "groups \<Rightarrow> nat \<Rightarrow> string" where
  "group g i = (case map_of g i of None \<Rightarrow> [] | Some w \<Rightarrow> w)"

text \<open>\<^verbatim>\<open>\d\<close>, \<^verbatim>\<open>\s\<close> and the group \<^verbatim>\<open>(\d+(?:[.,]\d+)?)\<close>.\<close>

definition digit :: matcher where
  "digit = one is_digit"

definition space :: matcher where
  "space = one is_space"

definition decimal_group :: "nat \<Rightarrow> matcher" where
  "decimal_group i =
     grp i (seq (plus1 digit) (opt (seq (one (\<lambda>c. c = CHR ''.'' \<or> c = CHR '','')) (plus1 digit))))"


section \<open>Aggregator (app.py)\<close>

text \<open>
  A product is a Python dict. The record holds the keys that \<^verbatim>\<open>app.py\<close> reads or
  writes; a key is \<open>Missing\<close>, holds \<^verbatim>\<open>None\<close> (\<open>Null\<close>) or holds a value.
  A number is a Python float, modelled by the rational it stands for, with the
  infinity of \<^verbatim>\<open>float('inf')\<close> apart.
\<close>

datatype 'a field = Missing | Null | Val 'a

datatype pyval = Num rat | Str string

datatype pyfloat = Fin rat | Infinity

datatype py_error =
    KeyError | ValueError | TypeError | ZeroDivisionError | AttributeError
  | JSONDecodeError | FetchError | FetchTimeout

record product =
  store :: "string field"
  name :: "string field"
  price :: "pyval field"
  unit_size :: "string field"
  price_per_unit_value :: "pyval field"
  price_per_unit :: "pyfloat option"

text \<open>\<^verbatim>\<open>float(x)\<close> and \<^verbatim>\<open>int(x)\<close> on a text, raising ValueError.\<close>

definition float_of :: "string \<Rightarrow> py_error + rat" where
  "float_of s = (case py_float s of None \<Rightarrow> Inl ValueError | Some r \<Rightarrow> Inr r)"

definition int_of :: "string \<Rightarrow> py_error + int" where
  "int_of s = (case py_int s of None \<Rightarrow> Inl ValueError | Some n \<Rightarrow> Inr n)"

text \<open>\<^verbatim>\<open>float(product['price_per_unit_value'])\<close> on a value that is not None.\<close>

definition to_float :: "pyval \<Rightarrow> py_error + rat" where
  "to_float v = (case v of Num r \<Rightarrow> Inr r | Str s \<Rightarrow> float_of s)"

text \<open>
  \<^verbatim>\<open>float(str(product['price']).replace(EURO, '').replace(',', '.'))\<close>: a missing key
  raises KeyError; \<^verbatim>\<open>None\<close> becomes the text None, which is no number; a float is
  printed and read back unchanged. EURO stands for the euro sign, the three
  bytes \<open>euro\<close> in UTF-8.
\<close>

definition price_text_value :: "string \<Rightarrow> py_error + rat" where
  "price_text_value s = float_of (replace '','' ''.'' (replace euro [] s))"

definition base_price :: "product \<Rightarrow> py_error + rat" where
  "base_price product =
     (case price product of
        Missing \<Rightarrow> Inl KeyError
      | Null \<Rightarrow> price_text_value ''None''
      | Val (Num r) \<Rightarrow> Inr r
      | Val (Str s) \<Rightarrow> price_text_value s)"

text \<open>\<^verbatim>\<open>str(product.get('unit_size', '')).lower().strip()\<close>\<close>

definition unit_text :: "product \<Rightarrow> string" where
  "unit_text product =
     (case unit_size product of
        Missing \<Rightarrow> strip (lower [])
      | Null \<Rightarrow> strip (lower ''None'')
      | Val s \<Rightarrow> strip (lower s))"

text \<open>The patterns of \<^verbatim>\<open>calculate_price_per_unit\<close>:
  \<^verbatim>\<open>(\d+)\s*stuk\<close>, \<^verbatim>\<open>(\d+)\s*plak\<close>,
  \<^verbatim>\<open>(\d+(?:[.,]\d+)?)\s*k(?:ilo|g)\<close> and \<^verbatim>\<open>(\d+(?:[.,]\d+)?)\s*g(?:ram)?\<close>.\<close>

definition re_stuk :: matcher where
  "re_stuk = seq (grp 1 (plus1 digit)) (seq (star space) (lit ''stuk''))"

definition re_plak :: matcher where
  "re_plak = seq (grp 1 (plus1 digit)) (seq (star space) (lit ''plak''))"

definition re_kilo :: matcher where
  "re_kilo = seq (decimal_group 1) (seq (star space) (seq (lit ''k'') (alt (lit ''ilo'') (lit ''g''))))"

definition re_gram :: matcher where
  "re_gram = seq (decimal_group 1) (seq (star space) (seq (lit ''g'') (opt (lit ''ram''))))"

definition per_count :: "rat \<Rightarrow> matcher \<Rightarrow> string \<Rightarrow> py_error + pyfloat" where
  "per_count price' pattern unit_size' =
     (case re_search pattern unit_size' of
        None \<Rightarrow> Inr (Fin price')
      | Some match \<Rightarrow>
          (case int_of (group match 1) of
             Inl e \<Rightarrow> Inl e
           | Inr pieces \<Rightarrow> Inr (Fin (if pieces > 0 then price' / of_int pieces else price'))))"

definition weight_in_grams :: "string \<Rightarrow> py_error + rat" where
  "weight_in_grams unit_size' =
     (if contains ''kg'' unit_size' \<or> contains ''kilo'' unit_size' then
        (case re_search re_kilo unit_size' of
           None \<Rightarrow> Inr 0
         | Some match \<Rightarrow>
             (case float_of (replace '','' ''.'' (group match 1)) of
                Inl e \<Rightarrow> Inl e | Inr kg \<Rightarrow> Inr (kg * 1000)))
      else if contains ''g'' unit_size' \<or> contains ''gram'' unit_size' then
        (case re_search re_gram unit_size' of
           None \<Rightarrow> Inr 0
         | Some match \<Rightarrow> float_of (replace '','' ''.'' (group match 1)))
      else if isdigit (replace '' '' [] unit_size') then float_of unit_size'
      else Inr 0)"

text \<open>The body of the \<^verbatim>\<open>try\<close> of \<^verbatim>\<open>calculate_price_per_unit\<close>, with the
  exception it may raise.\<close>

definition price_per_unit_body :: "product \<Rightarrow> py_error + pyfloat" where
  "price_per_unit_body product =
     (case price_per_unit_value product of
        Val v \<Rightarrow> (case to_float v of Inl e \<Rightarrow> Inl e | Inr r \<Rightarrow> Inr (Fin r))
      | _ \<Rightarrow>
        (case base_price product of
           Inl e \<Rightarrow> Inl e
         | Inr price' \<Rightarrow>
             (let unit_size' = unit_text product in
              if contains ''stuk'' unit_size' then per_count price' re_stuk unit_size'
              else if contains ''plak'' unit_size' then per_count price' re_plak unit_size'
              else (case weight_in_grams unit_size' of
                      Inl e \<Rightarrow> Inl e
                    | Inr grams \<Rightarrow>
                        Inr (Fin (if grams > 0 then (price' / grams) * 1000 else price'))))))"

text \<open>\<^verbatim>\<open>calculate_price_per_unit\<close>: ValueError, TypeError and ZeroDivisionError are
  caught and give infinity; a KeyError leaves the function.\<close>

definition calculate_price_per_unit :: "product \<Rightarrow> py_error + pyfloat" where
  "calculate_price_per_unit product =
     (case price_per_unit_body product of
        Inl KeyError \<Rightarrow> Inl KeyError
      | Inl e \<Rightarrow> Inr Infinity
      | Inr v \<Rightarrow> Inr v)"

text \<open>The results that \<^verbatim>\<open>asyncio.gather(*tasks, return_exceptions=True)\<close> hands
  to \<^verbatim>\<open>search_products\<close>, one per selected store: the exception a scraper raised, the
  list it returned (whose items are dicts or something else), a single non-empty dict, or
  any other value.\<close>

datatype item = Dict product | NotDict

datatype task_result =
    Raised py_error
  | ResultList "item list"
  | ResultDict product
  | ResultOther

text \<open>\<^verbatim>\<open>f"{product.get('store')}_{product.get('name')}"\<close>\<close>

definition get_text :: "string field \<Rightarrow> string" where
  "get_text f = (case f of Missing \<Rightarrow> ''None'' | Null \<Rightarrow> ''None'' | Val s \<Rightarrow> s)"

definition product_key :: "product \<Rightarrow> string" where
  "product_key product = get_text (store product) @ ''_'' @ get_text (name product)"

text \<open>The merging loop, with its state: the list \<^verbatim>\<open>products\<close> and the set
  \<^verbatim>\<open>seen_products\<close>.\<close>

definition add_product :: "product \<Rightarrow> product list \<times> string set \<Rightarrow> product list \<times> string set" where
  "add_product product st =
     (if product_key product \<notin> snd st
      then (fst st @ [product], insert (product_key product) (snd st))
      else st)"

definition add_item :: "item \<Rightarrow> product list \<times> string set \<Rightarrow> product list \<times> string set" where
  "add_item i st = (case i of NotDict \<Rightarrow> st | Dict product \<Rightarrow> add_product product st)"

definition add_result :: "task_result \<Rightarrow> product list \<times> string set \<Rightarrow> product list \<times> string set" where
  "add_result result st =
     (case result of
        Raised e \<Rightarrow> st
      | ResultList items \<Rightarrow> fold add_item items st
      | ResultDict product \<Rightarrow> add_product product st
      | ResultOther \<Rightarrow> st)"

definition merge_results :: "task_result list \<Rightarrow> product list" where
  "merge_results results = fst (fold add_result results ([], {}))"

text \<open>The loop that sets \<^verbatim>\<open>product['price_per_unit']\<close>; any exception gives
  infinity.\<close>

definition set_price_per_unit :: "product \<Rightarrow> product" where
  "set_price_per_unit product =
     product\<lparr>price_per_unit := Some
       (case price_per_unit_value product of
          Val v \<Rightarrow> (case to_float v of Inl e \<Rightarrow> Infinity | Inr r \<Rightarrow> Fin r)
        | _ \<Rightarrow> (case calculate_price_per_unit product of Inl e \<Rightarrow> Infinity | Inr v \<Rightarrow> v))\<rparr>"

text \<open>Sort keys. Python compares floats; the pair puts infinity after every number.\<close>

definition float_key :: "pyfloat \<Rightarrow> bool \<times> rat" where
  "float_key v = (case v of Fin r \<Rightarrow> (False, r) | Infinity \<Rightarrow> (True, 0))"

definition price_per_unit_key :: "product \<Rightarrow> bool \<times> rat" where
  "price_per_unit_key x = (case price_per_unit x of None \<Rightarrow> float_key Infinity | Some v \<Rightarrow> float_key v)"

definition price_key :: "product \<Rightarrow> py_error + rat" where
  "price_key x =
     (case price x of
        Missing \<Rightarrow> price_text_value ''0''
      | Null \<Rightarrow> price_text_value ''None''
      | Val (Num r) \<Rightarrow> Inr r
      | Val (Str s) \<Rightarrow> price_text_value s)"

fun keys_of :: "product list \<Rightarrow> py_error + rat list" where
  "keys_of [] = Inr []"
| "keys_of (x # xs) =
     (case price_key x of
        Inl e \<Rightarrow> Inl e
      | Inr k \<Rightarrow> (case keys_of xs of Inl e \<Rightarrow> Inl e | Inr ks \<Rightarrow> Inr (k # ks)))"

text \<open>The JSON answers of \<^verbatim>\<open>search_products\<close>: the products with their count
  (and a message when there are none), or the status 500 of the outer handler.\<close>

datatype response =
    Found "product list" nat "string option"
  | ServerError py_error

definition respond :: "product list \<Rightarrow> response" where
  "respond products =
     (if products = []
      then Found [] 0 (Some ''No products found. Please try a different search term.'')
      else Found products (length products) None)"

definition search_products :: "string \<Rightarrow> task_result list \<Rightarrow> response" where
  "search_products sort_by results =
     (let products = map set_price_per_unit (merge_results results) in
      if sort_by = ''price_per_unit'' then respond (sort_key price_per_unit_key products)
      else if sort_by = ''price'' then
        (case keys_of products of
           Inl e \<Rightarrow> ServerError e
         | Inr ks \<Rightarrow> respond (map snd (sort_key fst (zip ks products))))
      else respond products)"

section \<open>Reference functions for the merge\<close>

text \<open>
  What the merging loop computes, written without its state: \<open>returned\<close> is the
  concatenation of the products that the results hold, in the order of the results, and
  \<open>first_seen\<close> drops every product whose key was seen before.
\<close>

fun first_seen :: "string set \<Rightarrow> product list \<Rightarrow> product list" where
  "first_seen seen [] = []"
| "first_seen seen (x # xs) =
     (if product_key x \<in> seen then first_seen seen xs
      else x # first_seen (insert (product_key x) seen) xs)"





definition gouda :: "string \<Rightarrow> rat \<Rightarrow> string field \<Rightarrow> product" where
  "gouda s p u =
     \<lparr>store = Val s, name = Val ''Gouda'', price = Val (Num p), unit_size = u,
      price_per_unit_value = Missing, price_per_unit = None\<rparr>"

section \<open>Unit sizes and prices per unit in the scrapers\<close>

text \<open>\<^verbatim>\<open>str(n)\<close> of an integer, \<^verbatim>\<open>int(x)\<close> of a float (towards zero) and
  \<^verbatim>\<open>str(x)\<close> of a float (a point and at least one digit after it; at most seventeen
  digits after the point are produced).\<close>

definition str_int :: "int \<Rightarrow> string" where
  "str_int n = (if n < 0 then ''-'' @ str_nat (nat (- n)) else str_nat (nat n))"

definition trunc :: "rat \<Rightarrow> int" where
  "trunc r = (if r < 0 then - \<lfloor>- r\<rfloor> else \<lfloor>r\<rfloor>)"

primrec frac_digits :: "nat \<Rightarrow> int \<Rightarrow> int \<Rightarrow> string" where
  "frac_digits 0 num den = []"
| "frac_digits (Suc n) num den =
     (if num = 0 then []
      else str_int (num * 10 div den) @ frac_digits n (num * 10 mod den) den)"

definition str_float :: "rat \<Rightarrow> string" where
  "str_float r =
     (let a = \<bar>r\<bar>;
          whole = \<lfloor>a\<rfloor>;
          num = fst (quotient_of (a - of_int whole));
          den = snd (quotient_of (a - of_int whole))
      in (if r < 0 then ''-'' else []) @ str_int whole @ ''.'' @
         (if num = 0 then ''0'' else frac_digits 17 num den))"

subsection \<open>ah\_scraper.py\<close>

text \<open>\<^verbatim>\<open>(\d+)\s*([gk]|kg|gram|stuk)(?:[^a-z]|$)\<close>\<close>

definition re_ah_unit_size :: matcher where
  "re_ah_unit_size =
     seq (grp 1 (plus1 digit))
       (seq (star space)
         (seq (grp 2 (alt (one (\<lambda>c. c = CHR ''g'' \<or> c = CHR ''k''))
                       (alt (lit ''kg'') (alt (lit ''gram'') (lit ''stuk'')))))
              (alt (one (\<lambda>c. \<not> is_lower c)) eos)))"

text \<open>The conversion of the unit size in \<^verbatim>\<open>scrape_ah_products\<close> ("Convert unit size
  to standard format if possible"); the argument is the text of the unit-size element,
  \<open>None\<close> without such an element.\<close>

definition ah_unit_size :: "string option \<Rightarrow> py_error + string option" where
  "ah_unit_size element =
     (case element of
        None \<Rightarrow> Inr None
      | Some text \<Rightarrow>
          (let unit_size' = strip text in
           if unit_size' = [] then Inr (Some unit_size')
           else (case re_search re_ah_unit_size (lower unit_size') of
                   None \<Rightarrow> Inr (Some unit_size')
                 | Some match \<Rightarrow>
                     (let num = group match 1; unit = lower (group match 2) in
                      if unit \<in> set [''g'', ''gram''] then Inr (Some (num @ ''g''))
                      else if unit \<in> set [''k'', ''kg''] then
                        (case int_of num of
                           Inl e \<Rightarrow> Inl e
                         | Inr n \<Rightarrow> Inr (Some (str_int (n * 1000) @ ''g'')))
                      else if unit = ''stuk'' then Inr (Some (num @ '' stuk''))
                      else Inr (Some unit_size')))))"

subsection \<open>jumbo\_scraper.py\<close>

text \<open>The list \<^verbatim>\<open>patterns\<close> of \<^verbatim>\<open>extract_unit_size\<close>: each pattern with its own
  text, which the function inspects to tell the unit. \<open>bsl\<close> is the backslash.\<close>

definition bsl :: string where
  "bsl = [CHR 0x5C]"

definition jumbo_patterns :: "(string \<times> matcher) list" where
  "jumbo_patterns =
     [(''('' @ bsl @ ''d+)'' @ bsl @ ''s*stuks?'' @ bsl @ ''b'',
       seq (grp 1 (plus1 digit))
         (seq (star space) (seq (lit ''stuk'') (seq (opt (lit ''s'')) wordb)))),
      (''('' @ bsl @ ''d+)'' @ bsl @ ''s*plakk?(?:en)?'' @ bsl @ ''b'',
       seq (grp 1 (plus1 digit))
         (seq (star space)
            (seq (lit ''plak'') (seq (opt (lit ''k'')) (seq (opt (lit ''en'')) wordb))))),
      (''('' @ bsl @ ''d+(?:[.,]'' @ bsl @ ''d+)?)'' @ bsl @ ''s*k(?:ilo|g)'' @ bsl @ ''b'',
       seq (decimal_group 1)
         (seq (star space) (seq (lit ''k'') (seq (alt (lit ''ilo'') (lit ''g'')) wordb)))),
      (''('' @ bsl @ ''d+(?:[.,]'' @ bsl @ ''d+)?)'' @ bsl @ ''s*(?:g(?:ram)?)'' @ bsl @ ''b'',
       seq (decimal_group 1)
         (seq (star space) (seq (lit ''g'') (seq (opt (lit ''ram'')) wordb))))]"

definition endswith :: "string \<Rightarrow> string \<Rightarrow> bool" where
  "endswith s w = (length w \<le> length s \<and> drop (length s - length w) s = w)"

fun try_patterns :: "(string \<times> matcher) list \<Rightarrow> string \<Rightarrow> py_error + string" where
  "try_patterns [] name' = Inr []"
| "try_patterns ((pattern, m) # patterns) name' =
     (case re_search m name' of
        None \<Rightarrow> try_patterns patterns name'
      | Some match \<Rightarrow>
          (let val = group match 1 in
           if contains ''stuk'' pattern then Inr (val @ '' stuks'')
           else if contains ''plak'' pattern then Inr (val @ '' plakken'')
           else if contains ''k'' pattern \<and> (contains ''kg'' pattern \<or> contains ''kilo'' pattern)
           then (case float_of (replace '','' ''.'' val) of
                   Inl e \<Rightarrow> Inl e
                 | Inr v \<Rightarrow> Inr (str_float (v * 1000) @ ''g''))
           else if contains ''g'' pattern then Inr (val @ ''g'')
           else try_patterns patterns name'))"

text \<open>\<^verbatim>\<open>extract_unit_size\<close> of the Jumbo scraper; \<open>None\<close> is a name that is
  \<^verbatim>\<open>None\<close>.\<close>

definition jumbo_extract_unit_size :: "string option \<Rightarrow> py_error + string" where
  "jumbo_extract_unit_size arg =
     (case arg of
        None \<Rightarrow> Inr []
      | Some text \<Rightarrow>
          if text = [] then Inr []
          else (let name' = lower text in
                if endswith name' ''half'' then Inr ''400g''
                else if contains '' heel'' name' \<or> contains ''-heel'' name' then Inr ''800g''
                else if contains ''half'' name' then Inr ''400g''
                else try_patterns jumbo_patterns name'))"

subsection \<open>plus\_scraper.py\<close>

text \<open>The patterns of \<^verbatim>\<open>extract_unit_size\<close>:
  \<^verbatim>\<open>^per\s+\<close>, \<^verbatim>\<open>(\d+(?:[.,]\d+)?)\s*([gk]|kg|gram)\<close>,
  \<^verbatim>\<open>(\d+)\s*(?:x\s*)?stuk\<close>, \<^verbatim>\<open>(\d+)\s*(?:x\s*)?plak(?:ken)?\<close>,
  \<^verbatim>\<open>(\d+(?:[.,]\d+)?)\s*([gk]|kg|gram)(?:[^a-z]|$)\<close> and \<^verbatim>\<open>^(\d+)$\<close>.\<close>

definition gk_group :: "nat \<Rightarrow> matcher" where
  "gk_group i = grp i (alt (one (\<lambda>c. c = CHR ''g'' \<or> c = CHR ''k''))
                        (alt (lit ''kg'') (lit ''gram'')))"

definition re_per_prefix :: matcher where
  "re_per_prefix = seq bos (seq (lit ''per'') (plus1 space))"

definition re_plus_per :: matcher where
  "re_plus_per = seq (decimal_group 1) (seq (star space) (gk_group 2))"

definition re_plus_stuk :: matcher where
  "re_plus_stuk =
     seq (grp 1 (plus1 digit))
       (seq (star space) (seq (opt (seq (lit ''x'') (star space))) (lit ''stuk'')))"

definition re_plus_plak :: matcher where
  "re_plus_plak =
     seq (grp 1 (plus1 digit))
       (seq (star space)
          (seq (opt (seq (lit ''x'') (star space))) (seq (lit ''plak'') (opt (lit ''ken'')))))"

definition re_plus_weight :: matcher where
  "re_plus_weight =
     seq (decimal_group 1)
       (seq (star space) (seq (gk_group 2) (alt (one (\<lambda>c. \<not> is_lower c)) eos)))"

definition re_numeric :: matcher where
  "re_numeric = seq bos (seq (grp 1 (plus1 digit)) eos)"

text \<open>\<^verbatim>\<open>re.sub(r'^per\s+', '', value)\<close>: the pattern can match at the start only.\<close>

definition sub_per_prefix :: "string \<Rightarrow> string" where
  "sub_per_prefix v =
     (case re_per_prefix (None, v) [] of [] \<Rightarrow> v | r # rs \<Rightarrow> snd (fst r))"

definition grams_text :: "string \<Rightarrow> py_error + string" where
  "grams_text num =
     (case float_of num of Inl e \<Rightarrow> Inl e | Inr v \<Rightarrow> Inr (str_int (trunc (v * 1000)) @ ''g''))"

definition plus_extract_unit_size :: "string option \<Rightarrow> py_error + string" where
  "plus_extract_unit_size arg =
     (case arg of
        None \<Rightarrow> Inr []
      | Some text \<Rightarrow>
          if text = [] then Inr []
          else
            (let v = sub_per_prefix (strip (lower text)) in
             case re_search re_plus_per v of
               Some match \<Rightarrow>
                 (let num = replace '','' ''.'' (group match 1); unit = lower (group match 2) in
                  if unit \<in> set [''k'', ''kg''] then grams_text num else Inr (num @ ''g''))
             | None \<Rightarrow>
             (case re_search re_plus_stuk v of
               Some match \<Rightarrow> Inr (group match 1 @ '' stuk'')
             | None \<Rightarrow>
             (case re_search re_plus_plak v of
               Some match \<Rightarrow> Inr (group match 1 @ '' plakken'')
             | None \<Rightarrow>
             (case (case re_search re_plus_weight v of
                      Some match \<Rightarrow>
                        (let num = replace '','' ''.'' (group match 1);
                             unit = lower (group match 2) in
                         if unit \<in> set [''g'', ''gram''] then
                           (case float_of num of
                              Inl e \<Rightarrow> Some (Inl e)
                            | Inr w \<Rightarrow> Some (Inr (str_int (trunc w) @ ''g'')))
                         else if unit \<in> set [''k'', ''kg''] then Some (grams_text num)
                         else None)
                    | None \<Rightarrow> None) of
                Some r \<Rightarrow> r
              | None \<Rightarrow>
                  if contains ''half'' v \<or> contains ''-half'' v \<or> contains '' half'' v
                  then Inr ''400g''
                  else (case re_search re_numeric v of
                          Some match \<Rightarrow> Inr (group match 1 @ ''g'')
                        | None \<Rightarrow> Inr v))))))"

text \<open>The patterns of \<^verbatim>\<open>calculate_price_per_unit\<close> of the Plus scraper:
  \<^verbatim>\<open>per\s*(\d+(?:[.,]\d+)?)\s*g\<close> and \<^verbatim>\<open>per\s*(\d+(?:[.,]\d+)?)\s*kg\<close>
  (the pieces use \<^verbatim>\<open>(\d+)\s*stuk\<close>, as in \<^verbatim>\<open>app.py\<close>).\<close>

definition re_per_gram :: matcher where
  "re_per_gram = seq (lit ''per'') (seq (star space) (seq (decimal_group 1) (seq (star space) (lit ''g''))))"

definition re_per_kg :: matcher where
  "re_per_kg = seq (lit ''per'') (seq (star space) (seq (decimal_group 1) (seq (star space) (lit ''kg''))))"

text \<open>\<^verbatim>\<open>calculate_price_per_unit(price, unit_size)\<close> of the Plus scraper returns a pair
  of a value and a unit, both \<^verbatim>\<open>None\<close> when nothing is found. Each step either
  returns (\<open>Some\<close>) or falls through to the next one (\<open>None\<close>).\<close>

definition plus_per_stuk :: "rat \<Rightarrow> string \<Rightarrow> (py_error + rat option \<times> string option) option" where
  "plus_per_stuk price' u =
     (case re_search re_stuk u of
        None \<Rightarrow> None
      | Some match \<Rightarrow>
          (case int_of (group match 1) of
             Inl e \<Rightarrow> Some (Inl e)
           | Inr pieces \<Rightarrow>
               if pieces > 0 then Some (Inr (Some (price' / of_int pieces), Some ''stuk''))
               else None))"

definition plus_per_gram :: "rat \<Rightarrow> string \<Rightarrow> (py_error + rat option \<times> string option) option" where
  "plus_per_gram price' u =
     (case re_search re_per_gram u of
        None \<Rightarrow> None
      | Some match \<Rightarrow>
          (case float_of (replace '','' ''.'' (group match 1)) of
             Inl e \<Rightarrow> Some (Inl e)
           | Inr grams \<Rightarrow>
               if grams > 0 then Some (Inr (Some ((price' * 1000) / grams), Some ''kilo''))
               else None))"

definition plus_per_kg :: "rat \<Rightarrow> string \<Rightarrow> (py_error + rat option \<times> string option) option" where
  "plus_per_kg price' u =
     (case re_search re_per_kg u of
        None \<Rightarrow> None
      | Some match \<Rightarrow>
          (case float_of (replace '','' ''.'' (group match 1)) of
             Inl e \<Rightarrow> Some (Inl e)
           | Inr kgs \<Rightarrow>
               if kgs > 0 then Some (Inr (Some (price' / kgs), Some ''kilo''))
               else None))"

definition plus_calculate_price_per_unit ::
    "rat \<Rightarrow> string option \<Rightarrow> py_error + rat option \<times> string option" where
  "plus_calculate_price_per_unit price' arg =
     (case arg of
        None \<Rightarrow> Inr (None, None)
      | Some text \<Rightarrow>
          if text = [] then Inr (None, None)
          else (let u = lower text in
                case plus_per_stuk price' u of
                  Some r \<Rightarrow> r
                | None \<Rightarrow>
                (case plus_per_gram price' u of
                  Some r \<Rightarrow> r
                | None \<Rightarrow>
                (case plus_per_kg price' u of
                  Some r \<Rightarrow> r
                | None \<Rightarrow> Inr (None, None)))))"

section \<open>Predicates on products\<close>

text \<open>A product without a price per unit from its scraper, and a product whose unit
  size holds none of the words and numbers that \<^verbatim>\<open>calculate_price_per_unit\<close> looks
  for.\<close>

definition lacks_value :: "product \<Rightarrow> bool" where
  "lacks_value p = (case price_per_unit_value p of Val v \<Rightarrow> False | _ \<Rightarrow> True)"

definition unit_unrecognised :: "product \<Rightarrow> bool" where
  "unit_unrecognised p =
     (let u = unit_text p in
      \<not> contains ''stuk'' u \<and> \<not> contains ''plak'' u \<and> \<not> contains ''kg'' u \<and>
      \<not> contains ''kilo'' u \<and> \<not> contains ''g'' u \<and> \<not> contains ''gram'' u \<and>
      \<not> isdigit (replace '' '' [] u))"

section \<open>Source orchestrators\<close>

text \<open>
  What a call of a scraper finds around it: the clock at the staleness check, the draw of
  the jitter, the clock when the cache is written, and what happens to the write.
  \<^verbatim>\<open>save_to_cache\<close> opens the file for writing and dumps the JSON text; both may fail
  and both failures are logged only. A failed dump leaves a file that cannot be read.
\<close>

datatype write_result = Written | OpenFailed | DumpFailed

record env =
  clock_check :: int
  jitter :: int
  clock_save :: int
  disk :: write_result

type_synonym cache = "string \<Rightarrow> product cache_file"

text \<open>\<^verbatim>\<open>get_cache_file\<close>, with the prefix of the module.\<close>

definition get_cache_file :: "string \<Rightarrow> string \<Rightarrow> string" where
  "get_cache_file prefix search_term =
     ''cache/'' @ prefix @ ''_'' @ replace '' '' ''_'' (lower search_term) @ ''_cache.json''"

definition save_to_cache :: "env \<Rightarrow> string \<Rightarrow> product list \<Rightarrow> cache \<Rightarrow> cache" where
  "save_to_cache e cache_file products c =
     (case disk e of
        Written \<Rightarrow> c(cache_file := CacheData (TsNaive (clock_save e)) (Some products))
      | OpenFailed \<Rightarrow> c
      | DumpFailed \<Rightarrow> c(cache_file := Unreadable))"

text \<open>The check at the head of each scraper:
  \<^verbatim>\<open>if not should_update_cache(cache_file): cached_products = load_from_cache(...)\<close>.\<close>

definition cached_products :: "env \<Rightarrow> string \<Rightarrow> cache \<Rightarrow> product list option" where
  "cached_products e cache_file c =
     (if \<not> should_update_cache (c cache_file) (clock_check e) (jitter e)
      then load_from_cache (c cache_file)
      else None)"

text \<open>The key of the sorts by price, \<^verbatim>\<open>x['price']\<close>; the products of the AH and
  Jumbo loops hold a float there.\<close>

definition item_price :: "product \<Rightarrow> rat" where
  "item_price x = (case price x of Val (Num r) \<Rightarrow> r | _ \<Rightarrow> 0)"

subsection \<open>ah\_scraper.py\<close>

text \<open>
  A product card of the AH page, as far as the loop decides with it whether the card
  gives a product: the text of the title, the texts of the integer and the fractional
  part inside the price element, the text of the unit size, the \<^verbatim>\<open>src\<close> of the
  image and the \<^verbatim>\<open>href\<close> of the link. \<open>None\<close> is an element (or attribute) that
  the card does not have. The promotion, the unit price, the properties, the nutriscore,
  the brand and the stock are read without any effect on this decision.
\<close>

record ah_card =
  title :: "string option"
  price_amount :: "(string option \<times> string option) option"
  unit_size_element :: "string option"
  image_src :: "string option option"
  link_href :: "string option option"

text \<open>The body of the loop over the cards: \<open>Inr None\<close> is a \<^verbatim>\<open>continue\<close>,
  \<open>Inl e\<close> an exception, which the loop catches and answers with \<^verbatim>\<open>continue\<close>
  as well.\<close>

definition ah_card_product :: "ah_card \<Rightarrow> py_error + product option" where
  "ah_card_product card' =
     (case title card' of
        None \<Rightarrow> Inr None
      | Some name_text \<Rightarrow>
     (case price_amount card' of
        None \<Rightarrow> Inr None
      | Some (None, fractional_part) \<Rightarrow> Inl AttributeError
      | Some (Some integer_part, None) \<Rightarrow> Inl AttributeError
      | Some (Some integer_part, Some fractional_part) \<Rightarrow>
     (case float_of (integer_part @ ''.'' @ fractional_part) of
        Inl e \<Rightarrow> Inl e
      | Inr price' \<Rightarrow>
     (case ah_unit_size (unit_size_element card') of
        Inl e \<Rightarrow> Inl e
      | Inr unit_size' \<Rightarrow>
     (case image_src card' of
        None \<Rightarrow> Inr None
      | Some src \<Rightarrow>
          if src = None \<or> src = Some [] then Inr None
          else
     (case link_href card' of
        None \<Rightarrow> Inr None
      | Some href \<Rightarrow>
          Inr (Some \<lparr>store = Val ''ah'', name = Val (strip name_text),
                      price = Val (Num price'),
                      unit_size = (case unit_size' of None \<Rightarrow> Null | Some u \<Rightarrow> Val u),
                      price_per_unit_value = Missing, price_per_unit = None\<rparr>)))))))"

fun ah_products :: "ah_card list \<Rightarrow> product list" where
  "ah_products [] = []"
| "ah_products (card' # cards) =
     (case ah_card_product card' of
        Inr (Some product) \<Rightarrow> product # ah_products cards
      | _ \<Rightarrow> ah_products cards)"

text \<open>\<^verbatim>\<open>scrape_ah_products\<close>. The fetch either raises or gives the cards of the
  page. The result is the returned list or the exception raised again, with the cache
  after the call.\<close>

definition scrape_ah_products ::
    "env \<Rightarrow> string \<Rightarrow> py_error + ah_card list \<Rightarrow> cache \<Rightarrow> (py_error + product list) \<times> cache" where
  "scrape_ah_products e search_term fetch c =
     (let cache_file = get_cache_file ''ah'' search_term in
      case cached_products e cache_file c of
        Some cached \<Rightarrow> (Inr cached, c)
      | None \<Rightarrow>
          (case fetch of
             Inl err \<Rightarrow> (Inl err, c)
           | Inr product_cards \<Rightarrow>
               (let products = sort_key item_price (ah_products product_cards) in
                (Inr products,
                 if products \<noteq> [] then save_to_cache e cache_file products c else c))))"

subsection \<open>jumbo\_scraper.py\<close>

text \<open>
  What the crawler hands back: an exception, no extracted content, content that is not
  JSON, or the list of the extracted raw products. A raw product is a JSON object; the
  record holds the keys that the loop reads.
\<close>

datatype 'r crawl = CrawlRaised py_error | NoContent | BadContent | Content "'r list"

record jumbo_raw =
  raw_name :: "string field"
  raw_image :: "string field"
  raw_link :: "string field"
  raw_price :: "string field"
  raw_unit_size :: "string field"
  raw_unit_price :: "string field"

text \<open>\<^verbatim>\<open>EURO\s*(\d+)[,\.]?(\d{0,2})\<close> and
  \<^verbatim>\<open>EURO\s*(\d+)[,\.]?(\d{0,2})\s+per\s+(\w+)\<close>.\<close>

definition upto2 :: "matcher \<Rightarrow> matcher" where
  "upto2 m = alt (seq m (alt m eps)) eps"

definition re_euro_amount :: matcher where
  "re_euro_amount =
     seq (lit euro)
       (seq (star space)
          (seq (grp 1 (plus1 digit))
             (seq (opt (one (\<lambda>c. c = CHR '','' \<or> c = CHR ''.''))) (grp 2 (upto2 digit)))))"

definition re_euro_per :: matcher where
  "re_euro_per =
     seq re_euro_amount
       (seq (plus1 space) (seq (lit ''per'') (seq (plus1 space) (grp 3 (plus1 (one is_word))))))"

text \<open>\<^verbatim>\<open>float(f"{m.group(1)}.{m.group(2) or '00'}")\<close>\<close>

definition euro_value :: "groups \<Rightarrow> py_error + rat" where
  "euro_value m =
     float_of (group m 1 @ ''.'' @ (if group m 2 = [] then ''00'' else group m 2))"

text \<open>The unit price: the value and the unit, both \<^verbatim>\<open>None\<close> without a match.\<close>

definition jumbo_unit_price :: "string field \<Rightarrow> py_error + (rat \<times> string) option" where
  "jumbo_unit_price f =
     (case f of
        Val unit_price \<Rightarrow>
          if unit_price = [] then Inr None
          else (case re_search re_euro_per unit_price of
                  None \<Rightarrow> Inr None
                | Some m \<Rightarrow>
                    (case euro_value m of
                       Inl e \<Rightarrow> Inl e
                     | Inr v \<Rightarrow> Inr (Some (v, group m 3))))
      | _ \<Rightarrow> Inr None)"

definition jumbo_unit_size :: "jumbo_raw \<Rightarrow> string option \<Rightarrow> py_error + string" where
  "jumbo_unit_size raw per_unit =
     (case (case raw_unit_size raw of
              Val u \<Rightarrow> if u = [] then None else Some (Inr u)
            | _ \<Rightarrow> None) of
        Some r \<Rightarrow> r
      | None \<Rightarrow>
          (case raw_name raw of
             Missing \<Rightarrow> Inl KeyError
           | n \<Rightarrow>
               (case jumbo_extract_unit_size (case n of Val t \<Rightarrow> Some t | _ \<Rightarrow> None) of
                  Inl e \<Rightarrow> Inl e
                | Inr u \<Rightarrow>
                    if u = [] \<and> per_unit = Some ''stuk'' then Inr ''1 stuk''
                    else if u = [] \<and> per_unit = Some ''kilo'' then Inr ''800g''
                    else Inr u)))"

definition jumbo_raw_product :: "jumbo_raw \<Rightarrow> py_error + product option" where
  "jumbo_raw_product raw =
     (case raw_price raw of
        Missing \<Rightarrow> Inl KeyError
      | Null \<Rightarrow> Inl TypeError
      | Val price_text \<Rightarrow>
     (case re_search re_euro_amount price_text of
        None \<Rightarrow> Inr None
      | Some price_match \<Rightarrow>
     (case euro_value price_match of
        Inl e \<Rightarrow> Inl e
      | Inr price' \<Rightarrow>
     (case jumbo_unit_price (raw_unit_price raw) of
        Inl e \<Rightarrow> Inl e
      | Inr per \<Rightarrow>
     (case jumbo_unit_size raw (map_option snd per) of
        Inl e \<Rightarrow> Inl e
      | Inr unit_size' \<Rightarrow>
          if raw_name raw = Missing \<or> raw_image raw = Missing \<or> raw_link raw = Missing
          then Inl KeyError
          else if raw_link raw = Null then Inl AttributeError
          else Inr (Some \<lparr>store = Val ''jumbo'', name = raw_name raw,
                           price = Val (Num price'), unit_size = Val unit_size',
                           price_per_unit_value =
                             (case per of None \<Rightarrow> Null | Some vu \<Rightarrow> Val (Num (fst vu))),
                           price_per_unit = None\<rparr>))))))"

fun jumbo_products :: "jumbo_raw list \<Rightarrow> product list" where
  "jumbo_products [] = []"
| "jumbo_products (raw # raws) =
     (case jumbo_raw_product raw of
        Inr (Some product) \<Rightarrow> product # jumbo_products raws
      | _ \<Rightarrow> jumbo_products raws)"

definition scrape_jumbo_products ::
    "env \<Rightarrow> string \<Rightarrow> jumbo_raw crawl \<Rightarrow> cache \<Rightarrow> (py_error + product list) \<times> cache" where
  "scrape_jumbo_products e search_term result c =
     (let cache_file = get_cache_file ''jumbo'' search_term in
      case cached_products e cache_file c of
        Some cached \<Rightarrow> (Inr cached, c)
      | None \<Rightarrow>
          (case result of
             CrawlRaised err \<Rightarrow> (Inl err, c)
           | NoContent \<Rightarrow> (Inr [], c)
           | BadContent \<Rightarrow> (Inl JSONDecodeError, c)
           | Content raw_products \<Rightarrow>
               (let products = sort_key item_price (jumbo_products raw_products) in
                (Inr products,
                 if products \<noteq> [] then save_to_cache e cache_file products c else c))))"

subsection \<open>plus\_scraper.py\<close>

text \<open>A raw product of the Plus page: the keys of the JSON object that the loop reads.
  \<open>raw_price\<close> is the key \<^verbatim>\<open>price\<close> of the raw object, which the cleaned product
  keeps unless the parsed price replaces it.\<close>

record plus_raw =
  plus_name :: "string field"
  plus_image :: "string field"
  price_integer :: "string field"
  price_decimal :: "string field"
  plus_price :: "pyval field"
  plus_unit_size :: "string field"

text \<open>\<^verbatim>\<open>parse_price(price_integer, price_decimal)\<close>; the arguments are
  \<^verbatim>\<open>product.get('_price_integer', '')\<close> and \<^verbatim>\<open>product.get('_price_decimal', '')\<close>.
  Iterating over \<^verbatim>\<open>None\<close> is a TypeError; it and the ValueError of \<^verbatim>\<open>int\<close> give
  the price 0.0.\<close>

definition rstrip_dots :: "string \<Rightarrow> string" where
  "rstrip_dots s = rev (dropWhile (\<lambda>c. c = CHR ''.'') (rev s))"

definition get_or_empty :: "string field \<Rightarrow> string option" where
  "get_or_empty f = (case f of Missing \<Rightarrow> Some [] | Null \<Rightarrow> None | Val s \<Rightarrow> Some s)"

definition two_digits :: "int \<Rightarrow> string" where
  "two_digits n = (if 0 \<le> n \<and> n < 10 then ''0'' @ str_int n else str_int n)"

definition parse_price_body :: "string option \<Rightarrow> string option \<Rightarrow> py_error + rat" where
  "parse_price_body price_integer' price_decimal' =
     (case price_integer' of
        None \<Rightarrow> Inl TypeError
      | Some int_text \<Rightarrow>
          (let integer_str = rstrip_dots (filter (\<lambda>c. is_digit c \<or> c = CHR ''.'') int_text) in
           case (if integer_str = [] then Inr 0 else int_of integer_str) of
             Inl e \<Rightarrow> Inl e
           | Inr integer_val \<Rightarrow>
               (case price_decimal' of
                  None \<Rightarrow> Inl TypeError
                | Some dec_text \<Rightarrow>
                    (let decimal_str = filter is_digit dec_text in
                     case (if decimal_str = [] then Inr 0 else int_of decimal_str) of
                       Inl e \<Rightarrow> Inl e
                     | Inr decimal_val \<Rightarrow>
                         float_of (str_int integer_val @ ''.'' @ two_digits decimal_val)))))"

definition parse_price :: "string option \<Rightarrow> string option \<Rightarrow> rat" where
  "parse_price price_integer' price_decimal' =
     (case parse_price_body price_integer' price_decimal' of Inl e \<Rightarrow> 0 | Inr p \<Rightarrow> p)"

text \<open>\<^verbatim>\<open>(\d+)g\<close> and \<^verbatim>\<open>/(\d+)_M/\<close>\<close>

definition re_digits_g :: matcher where
  "re_digits_g = seq (grp 1 (plus1 digit)) (lit ''g'')"

definition re_image_id :: matcher where
  "re_image_id = seq (lit ''/'') (seq (grp 1 (plus1 digit)) (lit ''_M/''))"

text \<open>The unit size and the price per unit of a cleaned product: \<open>None\<close> when the keys
  are not set. A value \<^verbatim>\<open>None\<close> from \<^verbatim>\<open>calculate_price_per_unit\<close> cannot be
  formatted with two decimals: TypeError.\<close>

definition plus_unit_price :: "rat \<Rightarrow> string field \<Rightarrow> py_error + rat option" where
  "plus_unit_price price' f =
     (case f of
        Val u \<Rightarrow>
          if u = [] then Inr None
          else
            (case (if contains ''g'' u
                   then (case re_search re_digits_g u of
                           None \<Rightarrow> Inr 0
                         | Some m \<Rightarrow> float_of (group m 1))
                   else Inr 0) of
               Inl e \<Rightarrow> Inl e
             | Inr grams \<Rightarrow>
                 if grams > 0 then
                   (case plus_calculate_price_per_unit price' (Some u) of
                      Inl e \<Rightarrow> Inl e
                    | Inr (None, per) \<Rightarrow> Inl TypeError
                    | Inr (Some v, per) \<Rightarrow> Inr (Some v))
                 else Inr None)
      | _ \<Rightarrow> Inr None)"

text \<open>The link is built from the product id inside the image URL and from the lowered
  name; lowering \<^verbatim>\<open>None\<close> is an AttributeError. The link itself is not among the keys
  of the record.\<close>

definition plus_link_check :: "plus_raw \<Rightarrow> py_error + unit" where
  "plus_link_check raw =
     (case plus_image raw of
        Val image_url \<Rightarrow>
          (case re_search re_image_id image_url of
             None \<Rightarrow> Inr ()
           | Some m \<Rightarrow> if plus_name raw = Null then Inl AttributeError else Inr ())
      | _ \<Rightarrow> Inr ())"

text \<open>The body of the loop over the raw products; an exception leaves the loop.\<close>

definition plus_cleaned_product :: "plus_raw \<Rightarrow> py_error + product" where
  "plus_cleaned_product raw =
     (let price' = parse_price (get_or_empty (price_integer raw)) (get_or_empty (price_decimal raw)) in
      case plus_unit_price price' (plus_unit_size raw) of
        Inl e \<Rightarrow> Inl e
      | Inr per \<Rightarrow>
          (case plus_link_check raw of
             Inl e \<Rightarrow> Inl e
           | Inr u \<Rightarrow>
               Inr \<lparr>store = Val ''plus'', name = plus_name raw,
                    price = (if price' > 0 then Val (Num price') else plus_price raw),
                    unit_size = plus_unit_size raw,
                    price_per_unit_value = (case per of None \<Rightarrow> Missing | Some v \<Rightarrow> Val (Num v)),
                    price_per_unit = None\<rparr>))"

fun plus_products :: "plus_raw list \<Rightarrow> py_error + product list" where
  "plus_products [] = Inr []"
| "plus_products (raw # raws) =
     (case plus_cleaned_product raw of
        Inl e \<Rightarrow> Inl e
      | Inr cleaned_product \<Rightarrow>
          (case plus_products raws of
             Inl e \<Rightarrow> Inl e
           | Inr cleaned_products \<Rightarrow> Inr (cleaned_product # cleaned_products)))"

text \<open>\<^verbatim>\<open>scrape_plus_products\<close>. A cached list is used when it is not empty. Every
  exception ends in \<^verbatim>\<open>return []\<close>.\<close>

definition scrape_plus_products ::
    "env \<Rightarrow> string \<Rightarrow> plus_raw crawl \<Rightarrow> cache \<Rightarrow> (py_error + product list) \<times> cache" where
  "scrape_plus_products e search_term result c =
     (let cache_file = get_cache_file ''plus'' search_term in
      case (case cached_products e cache_file c of
              None \<Rightarrow> None
            | Some cached \<Rightarrow> if cached \<noteq> [] then Some cached else None) of
        Some cached \<Rightarrow> (Inr cached, c)
      | None \<Rightarrow>
          (case result of
             CrawlRaised err \<Rightarrow> (Inr [], c)
           | NoContent \<Rightarrow> (Inr [], c)
           | BadContent \<Rightarrow> (Inr [], c)
           | Content products \<Rightarrow>
               if products = [] then (Inr [], c)
               else (case plus_products products of
                       Inl err \<Rightarrow> (Inr [], c)
                     | Inr cleaned_products \<Rightarrow>
                         (Inr cleaned_products,
                          save_to_cache e cache_file cleaned_products c))))"

section \<open>Staleness of a key and sample inputs\<close>

text \<open>\<open>stale\<close>: the staleness check of a scraper answers that the cache of the search
  term needs an update, so that the scraper fetches. The other constants are the sample
  surroundings, cards and raw products of the worked examples.\<close>

definition stale :: "env \<Rightarrow> string \<Rightarrow> string \<Rightarrow> cache \<Rightarrow> bool" where
  "stale e prefix search_term c =
     should_update_cache (c (get_cache_file prefix search_term)) (clock_check e) (jitter e)"

definition e0 :: env where
  "e0 = \<lparr>clock_check = 100, jitter = 0, clock_save = 101, disk = Written\<rparr>"


definition no_cache :: cache where
  "no_cache = (\<lambda>f. NoFile)"

definition kaas_card :: "string \<Rightarrow> string \<Rightarrow> string \<Rightarrow> ah_card" where
  "kaas_card n i f =
     \<lparr>title = Some n, price_amount = Some (Some i, Some f), unit_size_element = Some ''500 g'',
      image_src = Some (Some ''kaas.png''), link_href = Some (Some ''/producten/product/1'')\<rparr>"

definition kaas_raw :: "string \<Rightarrow> string \<Rightarrow> jumbo_raw" where
  "kaas_raw n p =
     \<lparr>raw_name = Val n, raw_image = Val ''kaas.png'', raw_link = Val ''/producten/1'',
      raw_price = Val p, raw_unit_size = Val ''500g'', raw_unit_price = Missing\<rparr>"



section \<open>Staleness bounds\<close>

text \<open>
  Claim C5. For a readable entry with a well-formed (zone-less) timestamp and every
  jitter draw between minus and plus the variance: the check answers True when the
  elapsed time exceeds 12h + 4h, and False when it is below 12h - 4h. A missing file, an
  unreadable file and an entry whose timestamp cannot be used are always stale.
\<close>

theorem should_update_cache_bounds:
  "(- CACHE_DURATION_VARIANCE \<le> variance \<and> variance \<le> CACHE_DURATION_VARIANCE \<longrightarrow>
      (now - t > CACHE_DURATION + CACHE_DURATION_VARIANCE \<longrightarrow>
         should_update_cache (CacheData (TsNaive t) (ps::'p list option)) now variance) \<and>
      (now - t < CACHE_DURATION - CACHE_DURATION_VARIANCE \<longrightarrow>
         \<not> should_update_cache (CacheData (TsNaive t) ps) now variance)) \<and>
   should_update_cache (NoFile::'p cache_file) now variance \<and>
   should_update_cache (Unreadable::'p cache_file) now variance \<and>
   should_update_cache (CacheData TsInvalid ps) now variance \<and>
   should_update_cache (CacheData (TsAware t) ps) now variance"
  by (simp add: should_update_cache_def)

theorem should_update_cache_bounds_witness:
  "- CACHE_DURATION_VARIANCE \<le> 0 \<and> 0 \<le> CACHE_DURATION_VARIANCE \<and>
   61200000000 - 0 > CACHE_DURATION + CACHE_DURATION_VARIANCE \<and>
   should_update_cache (CacheData (TsNaive 0) (Some ([]::nat list))) 61200000000 0 \<and>
   25200000000 - 0 < CACHE_DURATION - CACHE_DURATION_VARIANCE \<and>
   \<not> should_update_cache (CacheData (TsNaive 0) (Some ([]::nat list))) 25200000000 0"
  using should_update_cache_bounds [of 0 61200000000 0 "Some ([]::nat list)"]
        should_update_cache_bounds [of 0 25200000000 0 "Some ([]::nat list)"]
  by (simp add: CACHE_DURATION_def CACHE_DURATION_VARIANCE_def)

section \<open>Merging and failure isolation\<close>

lemma fold_add_product:
  "fold add_product xs (acc, seen) =
     (acc @ first_seen seen xs, seen \<union> product_key ` set xs)"
  by (induction xs arbitrary: acc seen) (auto simp: add_product_def)















section \<open>Prices per unit\<close>

text \<open>
  Claim C7 at the example of the specification. The same mass written as 400g and as
  0.4kg: the unit-size conversion of the AH scraper gives 400g and 4000g, that of the
  Jumbo scraper 400g and 0.4g, that of the Plus scraper 400g both times.
\<close>

theorem unit_size_kilograms_evaluated:
  "ah_unit_size (Some ''400g'') = Inr (Some ''400g'') \<and>
   ah_unit_size (Some ''0.4kg'') = Inr (Some ''4000g'') \<and>
   jumbo_extract_unit_size (Some ''400g'') = Inr ''400g'' \<and>
   jumbo_extract_unit_size (Some ''0.4kg'') = Inr ''0.4g'' \<and>
   plus_extract_unit_size (Some ''400g'') = Inr ''400g'' \<and>
   plus_extract_unit_size (Some ''0.4kg'') = Inr ''400g''"
  by code_simp

text \<open>
  Claim C8 as stated fails in its third equation: for a product without a unit size
  (key missing or \<^verbatim>\<open>None\<close>) the derivation of \<^verbatim>\<open>app.py\<close> answers the price
  itself, not an absent result.
\<close>

theorem price_per_unit_absent_unit_counterexample:
  "calculate_price_per_unit (gouda ''ah'' 5 Missing) = Inr (Fin 5) \<and>
   calculate_price_per_unit (gouda ''ah'' 5 Null) = Inr (Fin 5)"
  by code_simp

lemma calculate_without_unit:
  "calculate_price_per_unit (gouda s x Missing) = Inr (Fin x) \<and>
   calculate_price_per_unit (gouda s x Null) = Inr (Fin x)"
proof -
  have none: "strip (lower ''None'') = ''none''"
    by code_simp
  have empty: "strip (lower []) = []"
    by (simp add: strip_def lower_def)
  have w1: "weight_in_grams [] = Inr 0"
    by (simp add: weight_in_grams_def isdigit_def)
  have w2: "weight_in_grams ''none'' = Inr 0"
    by code_simp
  have c: "\<not> contains ''stuk'' ''none'' \<and> \<not> contains ''plak'' ''none''"
    by code_simp
  show ?thesis
    using c
    by (simp add: calculate_price_per_unit_def price_per_unit_body_def gouda_def base_price_def
          unit_text_def none empty w1 w2)
qed

text \<open>
  Claim C8, as the code has it. The derivation of \<^verbatim>\<open>app.py\<close> gives the sort value
  10 for the price 5.00 and the unit 500g, 2.50 for the unit 2 stuk, and the price itself
  for every price without a unit. The derivation of the Plus scraper gives 10 per kilo
  for "per 500 g", 2.50 per piece for "2 stuk", and the pair of two \<^verbatim>\<open>None\<close> for an
  absent or empty unit.
\<close>

theorem price_per_unit_reference_values:
  "calculate_price_per_unit (gouda s 5 (Val ''500g'')) = Inr (Fin 10) \<and>
   calculate_price_per_unit (gouda s 5 (Val ''2 stuk'')) = Inr (Fin (5 / 2)) \<and>
   calculate_price_per_unit (gouda s x Missing) = Inr (Fin x) \<and>
   calculate_price_per_unit (gouda s x Null) = Inr (Fin x) \<and>
   plus_calculate_price_per_unit 5 (Some ''per 500 g'') = Inr (Some 10, Some ''kilo'') \<and>
   plus_calculate_price_per_unit 5 (Some ''2 stuk'') = Inr (Some (5 / 2), Some ''stuk'') \<and>
   plus_calculate_price_per_unit x None = Inr (None, None) \<and>
   plus_calculate_price_per_unit x (Some []) = Inr (None, None)"
proof -
  have a: "price_per_unit_body (gouda s 5 (Val ''500g'')) = Inr (Fin 10)"
  proof -
    have u: "strip (lower ''500g'') = ''500g''" by code_simp
    have c: "\<not> contains ''stuk'' ''500g'' \<and> \<not> contains ''plak'' ''500g''" by code_simp
    have w: "weight_in_grams ''500g'' = Inr 500" by code_simp
    show ?thesis
      using c by (simp add: price_per_unit_body_def gouda_def base_price_def unit_text_def u w)
  qed
  have b: "price_per_unit_body (gouda s 5 (Val ''2 stuk'')) = Inr (Fin (5 / 2))"
  proof -
    have u: "strip (lower ''2 stuk'') = ''2 stuk''" by code_simp
    have c: "contains ''stuk'' ''2 stuk''" by code_simp
    have w: "per_count 5 re_stuk ''2 stuk'' = Inr (Fin (5 / 2))" by code_simp
    show ?thesis
      using c by (simp add: price_per_unit_body_def gouda_def base_price_def unit_text_def u w)
  qed
  have c: "plus_calculate_price_per_unit 5 (Some ''per 500 g'') = Inr (Some 10, Some ''kilo'') \<and>
           plus_calculate_price_per_unit 5 (Some ''2 stuk'') = Inr (Some (5 / 2), Some ''stuk'')"
    by code_simp
  have d: "plus_calculate_price_per_unit x None = Inr (None, None) \<and>
           plus_calculate_price_per_unit x (Some []) = Inr (None, None)"
    by (simp add: plus_calculate_price_per_unit_def)
  show ?thesis
    using a b c d calculate_without_unit [of s x]
    by (simp add: calculate_price_per_unit_def)
qed

text \<open>
  Claim C2 as stated fails: a product without a unit size, at the price 1.00, gets the
  sort value 1 and is listed before a product of 5.00 per 500g (10 per kilogram).
\<close>

theorem unrecognised_unit_counterexample:
  "search_products ''price_per_unit''
     [ResultList [Dict (gouda ''jumbo'' 5 (Val ''500g''))],
      ResultList [Dict (gouda ''ah'' 1 Missing)]] =
   Found [(gouda ''ah'' 1 Missing)\<lparr>price_per_unit := Some (Fin 1)\<rparr>,
          (gouda ''jumbo'' 5 (Val ''500g''))\<lparr>price_per_unit := Some (Fin 10)\<rparr>] 2 None"
  by code_simp

lemma set_price_per_unit_some: "\<exists>v. price_per_unit (set_price_per_unit p) = Some v"
  by (simp add: set_price_per_unit_def)

lemma infinite_key:
  "price_per_unit q = Some v \<Longrightarrow> (True, 0) \<le> price_per_unit_key q \<Longrightarrow> v = Infinity"
  by (cases v) (auto simp: price_per_unit_key_def float_key_def less_eq_prod_def)

lemma infinite_last:
  assumes "sorted (map price_per_unit_key ps)"
    and "\<forall>q \<in> set ps. \<exists>v. price_per_unit q = Some v"
    and "i < j" and "j < length ps"
    and "price_per_unit (ps ! i) = Some Infinity"
  shows "price_per_unit (ps ! j) = Some Infinity"
proof -
  have "price_per_unit_key (ps ! i) \<le> price_per_unit_key (ps ! j)"
    using assms(1,3,4) by (simp add: sorted_iff_nth_mono)
  moreover have "price_per_unit_key (ps ! i) = (True, 0)"
    using assms(5) by (simp add: price_per_unit_key_def float_key_def)
  moreover obtain v where "price_per_unit (ps ! j) = Some v"
    using assms(2,4) by (meson nth_mem)
  ultimately show ?thesis
    using infinite_key by auto
qed

text \<open>
  Claim C2, as the code has it. A merged product without a price per unit from its
  scraper gets its own price as the sort value when its unit size is not recognised, and
  the infinite sort value when its price cannot be read as a number. Under the default
  order no product with a finite sort value comes after a product with the infinite one.
\<close>

theorem price_per_unit_sort_value:
  "(lacks_value p \<and> unit_unrecognised p \<and> base_price p = Inr r \<longrightarrow>
      price_per_unit (set_price_per_unit p) = Some (Fin r)) \<and>
   (lacks_value p \<and> base_price p = Inl e \<longrightarrow>
      price_per_unit (set_price_per_unit p) = Some Infinity) \<and>
   (search_products ''price_per_unit'' rs = Found ps n m \<and> i < j \<and> j < length ps \<and>
      price_per_unit (ps ! i) = Some Infinity \<longrightarrow>
      price_per_unit (ps ! j) = Some Infinity)"
proof (intro conjI impI)
  assume h: "lacks_value p \<and> unit_unrecognised p \<and> base_price p = Inr r"
  then have w: "weight_in_grams (unit_text p) = Inr 0"
    by (simp add: unit_unrecognised_def weight_in_grams_def Let_def)
  from h have "price_per_unit_body p = Inr (Fin r)"
    by (auto simp: lacks_value_def unit_unrecognised_def price_per_unit_body_def Let_def w
             split: field.splits)
  with h show "price_per_unit (set_price_per_unit p) = Some (Fin r)"
    by (auto simp: set_price_per_unit_def calculate_price_per_unit_def lacks_value_def
             split: field.splits)
next
  assume h: "lacks_value p \<and> base_price p = Inl e"
  then have "price_per_unit_body p = Inl e"
    by (auto simp: lacks_value_def price_per_unit_body_def split: field.splits)
  with h show "price_per_unit (set_price_per_unit p) = Some Infinity"
    by (auto simp: set_price_per_unit_def calculate_price_per_unit_def lacks_value_def
             split: field.splits py_error.splits)
next
  assume h: "search_products ''price_per_unit'' rs = Found ps n m \<and> i < j \<and> j < length ps \<and>
      price_per_unit (ps ! i) = Some Infinity"
  let ?qs = "sort_key price_per_unit_key (map set_price_per_unit (merge_results rs))"
  from h have "respond ?qs = Found ps n m"
    by (simp add: search_products_def)
  then have ps: "ps = ?qs"
    by (auto simp: respond_def split: if_splits)
  have "sorted (map price_per_unit_key ps)"
    unfolding ps by simp
  moreover have "\<forall>q \<in> set ps. \<exists>v. price_per_unit q = Some v"
    unfolding ps using set_price_per_unit_some by auto
  ultimately show "price_per_unit (ps ! j) = Some Infinity"
    using h infinite_last by blast
qed

theorem price_per_unit_sort_value_witness:
  "lacks_value (gouda ''ah'' 1 Missing) \<and> unit_unrecognised (gouda ''ah'' 1 Missing) \<and>
   base_price (gouda ''ah'' 1 Missing) = Inr 1 \<and>
   price_per_unit (set_price_per_unit (gouda ''ah'' 1 Missing)) = Some (Fin 1) \<and>
   lacks_value ((gouda ''ah'' 1 Missing)\<lparr>price := Null\<rparr>) \<and>
   base_price ((gouda ''ah'' 1 Missing)\<lparr>price := Null\<rparr>) = Inl ValueError \<and>
   price_per_unit (set_price_per_unit ((gouda ''ah'' 1 Missing)\<lparr>price := Null\<rparr>)) = Some Infinity \<and>
   search_products ''price_per_unit''
     [ResultList [Dict ((gouda ''ah'' 1 Missing)\<lparr>price := Null\<rparr>)],
      ResultList [Dict ((gouda ''jumbo'' 1 Missing)\<lparr>price := Missing\<rparr>)],
      ResultList [Dict (gouda ''plus'' 2 Missing)]] =
   Found [(gouda ''plus'' 2 Missing)\<lparr>price_per_unit := Some (Fin 2)\<rparr>,
          (gouda ''ah'' 1 Missing)\<lparr>price := Null, price_per_unit := Some Infinity\<rparr>,
          (gouda ''jumbo'' 1 Missing)\<lparr>price := Missing, price_per_unit := Some Infinity\<rparr>]
     3 None \<and>
   price_per_unit
     ([(gouda ''plus'' 2 Missing)\<lparr>price_per_unit := Some (Fin 2)\<rparr>,
       (gouda ''ah'' 1 Missing)\<lparr>price := Null, price_per_unit := Some Infinity\<rparr>,
       (gouda ''jumbo'' 1 Missing)\<lparr>price := Missing, price_per_unit := Some Infinity\<rparr>] ! 2) =
     Some Infinity"
proof -
  have a: "lacks_value (gouda ''ah'' 1 Missing) \<and> unit_unrecognised (gouda ''ah'' 1 Missing) \<and>
   base_price (gouda ''ah'' 1 Missing) = Inr 1"
    by code_simp
  have b: "lacks_value ((gouda ''ah'' 1 Missing)\<lparr>price := Null\<rparr>) \<and>
   base_price ((gouda ''ah'' 1 Missing)\<lparr>price := Null\<rparr>) = Inl ValueError"
    by code_simp
  have c: "search_products ''price_per_unit''
     [ResultList [Dict ((gouda ''ah'' 1 Missing)\<lparr>price := Null\<rparr>)],
      ResultList [Dict ((gouda ''jumbo'' 1 Missing)\<lparr>price := Missing\<rparr>)],
      ResultList [Dict (gouda ''plus'' 2 Missing)]] =
   Found [(gouda ''plus'' 2 Missing)\<lparr>price_per_unit := Some (Fin 2)\<rparr>,
          (gouda ''ah'' 1 Missing)\<lparr>price := Null, price_per_unit := Some Infinity\<rparr>,
          (gouda ''jumbo'' 1 Missing)\<lparr>price := Missing, price_per_unit := Some Infinity\<rparr>]
     3 None"
    by code_simp
  have d: "price_per_unit
     ([(gouda ''plus'' 2 Missing)\<lparr>price_per_unit := Some (Fin 2)\<rparr>,
       (gouda ''ah'' 1 Missing)\<lparr>price := Null, price_per_unit := Some Infinity\<rparr>,
       (gouda ''jumbo'' 1 Missing)\<lparr>price := Missing, price_per_unit := Some Infinity\<rparr>] ! 1) =
     Some Infinity"
    by simp
  have e: "(1::nat) < 2 \<and> (2::nat) < length
     [(gouda ''plus'' 2 Missing)\<lparr>price_per_unit := Some (Fin 2)\<rparr>,
       (gouda ''ah'' 1 Missing)\<lparr>price := Null, price_per_unit := Some Infinity\<rparr>,
       (gouda ''jumbo'' 1 Missing)\<lparr>price := Missing, price_per_unit := Some Infinity\<rparr>]"
    by simp
  show ?thesis
    using a b c
      price_per_unit_sort_value [where p = "gouda ''ah'' 1 Missing" and r = 1]
      price_per_unit_sort_value
        [where p = "(gouda ''ah'' 1 Missing)\<lparr>price := Null\<rparr>" and e = ValueError]
      price_per_unit_sort_value
        [where i = 1 and j = 2 and n = 3 and m = None
           and rs = "[ResultList [Dict ((gouda ''ah'' 1 Missing)\<lparr>price := Null\<rparr>)],
                     ResultList [Dict ((gouda ''jumbo'' 1 Missing)\<lparr>price := Missing\<rparr>)],
                     ResultList [Dict (gouda ''plus'' 2 Missing)]]"
           and ps = "[(gouda ''plus'' 2 Missing)\<lparr>price_per_unit := Some (Fin 2)\<rparr>,
                      (gouda ''ah'' 1 Missing)\<lparr>price := Null, price_per_unit := Some Infinity\<rparr>,
                      (gouda ''jumbo'' 1 Missing)\<lparr>price := Missing,
                         price_per_unit := Some Infinity\<rparr>]"]
      d e
    by blast
qed

section \<open>Orchestrators: cache writes and failures\<close>

lemma cached_products_stale: "stale e prefix t c \<Longrightarrow> cached_products e (get_cache_file prefix t) c = None"
  by (simp add: stale_def cached_products_def)

lemma plus_products_length: "plus_products raws = Inr ps \<Longrightarrow> length ps = length raws"
  by (induction raws arbitrary: ps) (auto split: sum.splits)

text \<open>
  Claim C3. Whenever one of the three orchestrators returns an empty product list, the
  cache after the call is the cache before it: nothing was written, the entry of the
  search term included.
\<close>

theorem empty_scrape_writes_nothing:
  "(scrape_ah_products e t fetch c = (Inr [], c') \<longrightarrow> c' = c) \<and>
   (scrape_jumbo_products e t result c = (Inr [], c') \<longrightarrow> c' = c) \<and>
   (scrape_plus_products e t presult c = (Inr [], c') \<longrightarrow> c' = c)"
proof (intro conjI impI)
  assume "scrape_ah_products e t fetch c = (Inr [], c')"
  then show "c' = c"
    by (auto simp: scrape_ah_products_def Let_def split: option.splits sum.splits if_splits)
next
  assume "scrape_jumbo_products e t result c = (Inr [], c')"
  then show "c' = c"
    by (auto simp: scrape_jumbo_products_def Let_def split: option.splits crawl.splits if_splits)
next
  assume "scrape_plus_products e t presult c = (Inr [], c')"
  then show "c' = c"
    by (auto simp: scrape_plus_products_def Let_def dest: plus_products_length
             split: option.splits crawl.splits if_splits sum.splits)
qed

theorem empty_scrape_writes_nothing_witness:
  "scrape_ah_products e0 ''kaas'' (Inr [(kaas_card ''Kaas'' ''2'' ''49'')\<lparr>price_amount := None\<rparr>]) no_cache
     = (Inr [], no_cache) \<and>
   scrape_jumbo_products e0 ''kaas'' (Content [kaas_raw ''Kaas'' ''gratis'']) no_cache
     = (Inr [], no_cache) \<and>
   scrape_plus_products e0 ''kaas'' (Content []) no_cache = (Inr [], no_cache)"
proof -
  have a: "fst (scrape_ah_products e0 ''kaas''
             (Inr [(kaas_card ''Kaas'' ''2'' ''49'')\<lparr>price_amount := None\<rparr>]) no_cache) = Inr []"
    by code_simp
  have b: "fst (scrape_jumbo_products e0 ''kaas'' (Content [kaas_raw ''Kaas'' ''gratis'']) no_cache)
             = Inr []"
    by code_simp
  have c: "fst (scrape_plus_products e0 ''kaas'' (Content []) no_cache) = Inr []"
    by code_simp
  show ?thesis
    using a b c
      empty_scrape_writes_nothing
        [where e = e0 and t = "''kaas''" and c = no_cache
           and fetch = "Inr [(kaas_card ''Kaas'' ''2'' ''49'')\<lparr>price_amount := None\<rparr>]"
           and c' = "snd (scrape_ah_products e0 ''kaas''
               (Inr [(kaas_card ''Kaas'' ''2'' ''49'')\<lparr>price_amount := None\<rparr>]) no_cache)"]
      empty_scrape_writes_nothing
        [where e = e0 and t = "''kaas''" and c = no_cache
           and result = "Content [kaas_raw ''Kaas'' ''gratis'']"
           and c' = "snd (scrape_jumbo_products e0 ''kaas''
               (Content [kaas_raw ''Kaas'' ''gratis'']) no_cache)"]
      empty_scrape_writes_nothing
        [where e = e0 and t = "''kaas''" and c = no_cache and presult = "Content []"
           and c' = "snd (scrape_plus_products e0 ''kaas'' (Content []) no_cache)"]
    by (metis prod.collapse)
qed

text \<open>
  Claim C4 as stated fails: when the crawler raises a timeout, the Plus orchestrator
  returns an empty list; so does the Jumbo orchestrator when the crawler extracted no
  content.
\<close>

theorem plus_fetch_failure_counterexample:
  "fst (scrape_plus_products e0 ''kaas'' (CrawlRaised FetchTimeout) no_cache) = Inr [] \<and>
   fst (scrape_jumbo_products e0 ''kaas'' NoContent no_cache) = Inr []"
  by code_simp

text \<open>
  Claim C4, as the code has it. When the cache needs an update and the fetch fails, the
  AH and the Jumbo orchestrator raise the failure to the caller (Jumbo also when the
  content is no JSON) and leave the cache as it is; the Jumbo orchestrator returns an
  empty list when no content was extracted, and the Plus orchestrator returns an empty
  list for every failure.
\<close>

theorem fetch_failure_outcomes:
  "(stale e ''ah'' t c \<longrightarrow> scrape_ah_products e t (Inl err) c = (Inl err, c)) \<and>
   (stale e ''jumbo'' t c \<longrightarrow>
      scrape_jumbo_products e t (CrawlRaised err) c = (Inl err, c) \<and>
      scrape_jumbo_products e t BadContent c = (Inl JSONDecodeError, c) \<and>
      scrape_jumbo_products e t NoContent c = (Inr [], c)) \<and>
   (stale e ''plus'' t c \<longrightarrow>
      scrape_plus_products e t (CrawlRaised err) c = (Inr [], c) \<and>
      scrape_plus_products e t BadContent c = (Inr [], c) \<and>
      scrape_plus_products e t NoContent c = (Inr [], c))"
  by (simp add: scrape_ah_products_def scrape_jumbo_products_def scrape_plus_products_def
        cached_products_stale)

theorem fetch_failure_outcomes_witness:
  "stale e0 ''ah'' ''kaas'' no_cache \<and> stale e0 ''jumbo'' ''kaas'' no_cache \<and>
   stale e0 ''plus'' ''kaas'' no_cache \<and>
   scrape_ah_products e0 ''kaas'' (Inl FetchTimeout) no_cache = (Inl FetchTimeout, no_cache) \<and>
   scrape_jumbo_products e0 ''kaas'' (CrawlRaised FetchTimeout) no_cache = (Inl FetchTimeout, no_cache) \<and>
   scrape_plus_products e0 ''kaas'' (CrawlRaised FetchTimeout) no_cache = (Inr [], no_cache)"
proof -
  have s: "stale e0 ''ah'' ''kaas'' no_cache \<and> stale e0 ''jumbo'' ''kaas'' no_cache \<and>
           stale e0 ''plus'' ''kaas'' no_cache"
    by (simp add: stale_def no_cache_def should_update_cache_def)
  show ?thesis
    using s fetch_failure_outcomes [of e0 "''kaas''" no_cache FetchTimeout]
    by simp
qed

section \<open>Price order of the AH and Jumbo lists\<close>









section \<open>Cards and their prices\<close>





















end
